theory Spec2Isabelle
  imports Main
begin

section \<open>JavaScript string primitives used by grep.ts\<close>

text \<open>
  Strings are modelled as lists of 8-bit characters. A character stands for the
  JavaScript code unit of the same number, with one exception: the number 0x96 stands
  for the en dash U+2013, which line 481 of the source names, and not for the control
  character U+0096. The model so covers the JavaScript strings all of whose code units
  are U+2013 or below 256 and other than U+0096; on them the functions below compute
  what the built-ins of the same name compute. An absent (\<open>undefined\<close>) text field of a
  process result is the empty string: the source reads those fields only through
  \<open>x?.f() || default\<close>, which treats both alike.
\<close>

abbreviation NL :: char where "NL \<equiv> CHR 0x0A"

abbreviation EN_DASH :: char where "EN_DASH \<equiv> CHR 0x96"

text \<open>White space of \<open>String.prototype.trim\<close> and of the regular expression class \<open>\s\<close>:
  tab, line feed, vertical tab, form feed, carriage return, space, no-break space.\<close>

definition isSpace :: "char \<Rightarrow> bool" where
  "isSpace c = (c = CHR 0x09 \<or> c = CHR 0x0A \<or> c = CHR 0x0B \<or> c = CHR 0x0C \<or> c = CHR 0x0D
                \<or> c = CHR 0x20 \<or> c = CHR 0xA0)"

text \<open>Line terminators, which the regular expression atom \<open>.\<close> does not match.\<close>

definition isLineTerminator :: "char \<Rightarrow> bool" where
  "isLineTerminator c = (c = CHR 0x0A \<or> c = CHR 0x0D)"

text \<open>The class \<open>\d\<close>.\<close>

definition isDigit :: "char \<Rightarrow> bool" where
  "isDigit c = (48 \<le> (of_char c :: nat) \<and> (of_char c :: nat) \<le> 57)"

definition trimStart :: "string \<Rightarrow> string" where
  "trimStart s = dropWhile isSpace s"

definition trimEnd :: "string \<Rightarrow> string" where
  "trimEnd s = rev (dropWhile isSpace (rev s))"

definition trim :: "string \<Rightarrow> string" where
  "trim s = trimEnd (trimStart s)"

text \<open>\<open>s.slice(a, b)\<close> for \<open>0 \<le> a\<close> and \<open>0 \<le> b\<close>.\<close>

definition slice :: "string \<Rightarrow> nat \<Rightarrow> nat \<Rightarrow> string" where
  "slice s a b = take (b - a) (drop a s)"

definition startsWith :: "string \<Rightarrow> string \<Rightarrow> bool" where
  "startsWith s p = (take (length p) s = p)"

text \<open>\<open>s.includes(p)\<close>: \<open>p\<close> occurs in \<open>s\<close> as a contiguous substring.\<close>

fun includes_str :: "string \<Rightarrow> string \<Rightarrow> bool" where
  "includes_str [] p = (p = [])"
| "includes_str (c # cs) p = (startsWith (c # cs) p \<or> includes_str cs p)"

text \<open>\<open>toLowerCase\<close> on code units below 256: the letters A to Z and the upper-case letters
  of Latin-1 (0xC0 to 0xDE except the multiplication sign 0xD7) move up by 32.\<close>

definition lowerChar :: "char \<Rightarrow> char" where
  "lowerChar c =
     (let n = (of_char c :: nat) in
      if (65 \<le> n \<and> n \<le> 90) \<or> (192 \<le> n \<and> n \<le> 222 \<and> n \<noteq> 215) then char_of (n + 32) else c)"

definition toLowerCase :: "string \<Rightarrow> string" where
  "toLowerCase s = map lowerChar s"

text \<open>\<open>s.split(sep)\<close> for a one-character separator; the empty string gives one empty piece.\<close>

fun split_str :: "char \<Rightarrow> string \<Rightarrow> string list" where
  "split_str sep [] = [[]]"
| "split_str sep (c # cs) =
     (if c = sep then [] # split_str sep cs
      else (case split_str sep cs of [] \<Rightarrow> [[c]] | p # ps \<Rightarrow> (c # p) # ps))"

text \<open>\<open>xs.join(sep)\<close>.\<close>

fun join_str :: "string \<Rightarrow> string list \<Rightarrow> string" where
  "join_str sep [] = []"
| "join_str sep [x] = x"
| "join_str sep (x # y # ys) = x @ sep @ join_str sep (y # ys)"

section \<open>The glob splitter\<close>

text \<open>
  \<open>splitGlobs\<close> (grep.ts, lines 81 to 95). The loop runs \<open>i\<close> from 0 to \<open>input.length\<close>
  inclusive; at \<open>i = input.length\<close> the character read is \<open>undefined\<close>, which is neither
  brace, so the last branch closes the final piece. \<open>depth\<close> is a number that may go
  negative on an unmatched closing brace.
\<close>

function splitGlobsLoop :: "string \<Rightarrow> nat \<Rightarrow> int \<Rightarrow> nat \<Rightarrow> string list \<Rightarrow> string list" where
  "splitGlobsLoop input i depth start parts =
     (if i \<le> length input then
        (if i < length input \<and> input ! i = CHR ''{'' then
           splitGlobsLoop input (i + 1) (depth + 1) start parts
         else if i < length input \<and> input ! i = CHR ''}'' then
           splitGlobsLoop input (i + 1) (depth - 1) start parts
         else if (i < length input \<and> input ! i = CHR '','' \<and> depth = 0) \<or> i = length input then
           (let g = trim (slice input start i) in
            splitGlobsLoop input (i + 1) depth (i + 1) (if g \<noteq> [] then parts @ [g] else parts))
         else splitGlobsLoop input (i + 1) depth start parts)
      else parts)"
  by pat_completeness auto
termination
  by (relation "measure (\<lambda>(input, i, depth, start, parts). length input + 1 - i)") auto

declare splitGlobsLoop.simps [simp del]

definition splitGlobs :: "string \<Rightarrow> string list" where
  "splitGlobs input = splitGlobsLoop input 0 0 0 []"

subsection \<open>What the splitter is meant to compute\<close>





section \<open>Numbers and the regular expressions of grep.ts\<close>


definition digitChar :: "nat \<Rightarrow> char" where
  "digitChar d = char_of (48 + d)"

fun showNat :: "nat \<Rightarrow> string" where
  "showNat n = (if n < 10 then [digitChar n] else showNat (n div 10) @ [digitChar (n mod 10)])"

declare showNat.simps [simp del]

definition showInt :: "int \<Rightarrow> string" where
  "showInt n = (if n < 0 then CHR ''-'' # showNat (nat (- n)) else showNat (nat n))"

definition digitVal :: "char \<Rightarrow> nat" where
  "digitVal c = of_char c - 48"

definition parseInt :: "string \<Rightarrow> int" where
  "parseInt ds = int (foldl (\<lambda>acc c. 10 * acc + digitVal c) 0 ds)"

text \<open>
  The leftmost match of a pattern \<open>(\d+)REST\<close>, where \<open>REST\<close> is given by the predicate
  \<open>follows\<close> on the text behind the digits and begins with a character that is no digit:
  the digit run is then maximal from its first position, and the group is that run.
\<close>

fun firstDigitsBefore :: "(string \<Rightarrow> bool) \<Rightarrow> string \<Rightarrow> string option" where
  "firstDigitsBefore follows [] = None"
| "firstDigitsBefore follows (c # cs) =
     (if takeWhile isDigit (c # cs) \<noteq> [] \<and> follows (dropWhile isDigit (c # cs))
      then Some (takeWhile isDigit (c # cs))
      else firstDigitsBefore follows cs)"

text \<open>\<open>/(\d+) files? searched/\<close>, \<open>/(\d+) files? contained matches/\<close> and \<open>/(\d+) files/\<close>.\<close>

definition filesSearchedRe :: "string \<Rightarrow> string option" where
  "filesSearchedRe s =
     firstDigitsBefore (\<lambda>r. startsWith r '' files searched'' \<or> startsWith r '' file searched'') s"

definition filesMatchedRe :: "string \<Rightarrow> string option" where
  "filesMatchedRe s =
     firstDigitsBefore
       (\<lambda>r. startsWith r '' files contained matches'' \<or> startsWith r '' file contained matches'') s"

definition filesIndexedRe :: "string \<Rightarrow> string option" where
  "filesIndexedRe s = firstDigitsBefore (\<lambda>r. startsWith r '' files'') s"

text \<open>\<open>/\n?\d+ matches?\n[\s\S]*$/\<close>: the pattern \<open>matches?\<close> is \<open>matche\<close> with an optional
  \<open>s\<close>. \<open>statsHere t\<close> says that \<open>\d+ matches?\n\<close> matches at the start of \<open>t\<close>; the
  replacement by the empty string cuts the text at the leftmost position where the whole
  pattern matches.\<close>

definition statsHere :: "string \<Rightarrow> bool" where
  "statsHere t =
     (takeWhile isDigit t \<noteq> [] \<and>
      (startsWith (dropWhile isDigit t) ('' matches'' @ [NL]) \<or>
       startsWith (dropWhile isDigit t) ('' matche'' @ [NL])))"

fun stripStatsBlock :: "string \<Rightarrow> string" where
  "stripStatsBlock [] = []"
| "stripStatsBlock (c # cs) =
     (if statsHere (c # cs) \<or> (c = NL \<and> statsHere cs) then [] else c # stripStatsBlock cs)"

text \<open>\<open>/^\d+[:\-]/\<close> and \<open>/^\d+:/\<close>.\<close>

definition numberedLine :: "string \<Rightarrow> bool" where
  "numberedLine l =
     (takeWhile isDigit l \<noteq> [] \<and>
      (startsWith (dropWhile isDigit l) '':'' \<or> startsWith (dropWhile isDigit l) ''-''))"

definition matchLine :: "string \<Rightarrow> bool" where
  "matchLine l = (takeWhile isDigit l \<noteq> [] \<and> startsWith (dropWhile isDigit l) '':'')"

text \<open>The test of lines 355 and 382: a non-empty line that is not numbered, does not start
  with a space and is not the context separator is a file heading.\<close>

definition headingLine :: "string \<Rightarrow> bool" where
  "headingLine l = (l \<noteq> [] \<and> \<not> numberedLine l \<and> \<not> startsWith l '' '' \<and> trim l \<noteq> ''--'')"

text \<open>\<open>/\x1B\[[0-9;]*m/g\<close> replaced by the empty string. \<open>ansiLen s\<close> is the length of the
  escape sequence at the start of \<open>s\<close>, 0 when there is none; \<open>stripAnsiFrom k s\<close> drops
  the next \<open>k\<close> characters, which belong to a sequence already recognised.\<close>

definition ansiLen :: "string \<Rightarrow> nat" where
  "ansiLen s =
     (case s of
        e # b # rest \<Rightarrow>
          (if e = CHR 0x1B \<and> b = CHR ''[''
              \<and> startsWith (dropWhile (\<lambda>c. isDigit c \<or> c = CHR '';'') rest) ''m''
           then 3 + length (takeWhile (\<lambda>c. isDigit c \<or> c = CHR '';'') rest) else 0)
      | _ \<Rightarrow> 0)"

fun stripAnsiFrom :: "nat \<Rightarrow> string \<Rightarrow> string" where
  "stripAnsiFrom k [] = []"
| "stripAnsiFrom (Suc k) (c # cs) = stripAnsiFrom k cs"
| "stripAnsiFrom 0 (c # cs) =
     (if ansiLen (c # cs) > 0 then stripAnsiFrom (ansiLen (c # cs) - 1) cs
      else c # stripAnsiFrom 0 cs)"

definition stripAnsi :: "string \<Rightarrow> string" where
  "stripAnsi s = stripAnsiFrom 0 s"

text \<open>\<open>/^(.+?):(\d+[-\u2013]\d+)/\<close>. \<open>rangeHere t\<close> is the second group when
  \<open>\d+[-\u2013]\d+\<close> matches at the start of \<open>t\<close>. The first group is the shortest
  non-empty prefix without line terminator that is followed by a colon and such a range.\<close>

definition rangeHere :: "string \<Rightarrow> string option" where
  "rangeHere t =
     (case dropWhile isDigit t of
        [] \<Rightarrow> None
      | x # r \<Rightarrow>
          (if takeWhile isDigit t \<noteq> [] \<and> (x = CHR ''-'' \<or> x = EN_DASH) \<and> takeWhile isDigit r \<noteq> []
           then Some (takeWhile isDigit t @ [x] @ takeWhile isDigit r) else None))"

fun rangeLineFrom :: "string \<Rightarrow> string \<Rightarrow> (string \<times> string) option" where
  "rangeLineFrom acc [] = None"
| "rangeLineFrom acc (c # cs) =
     (if acc \<noteq> [] \<and> c = CHR '':'' \<and> rangeHere cs \<noteq> None then Some (acc, the (rangeHere cs))
      else if isLineTerminator c then None
      else rangeLineFrom (acc @ [c]) cs)"

definition rangeLine :: "string \<Rightarrow> (string \<times> string) option" where
  "rangeLine l = rangeLineFrom [] l"

text \<open>\<open>/^file:\s+(.+)/\<close>. After \<open>file:\<close> comes the maximal run \<open>w\<close> of white space, which
  must not be empty. When text follows it, the group is that text up to its first line
  terminator. When nothing follows, \<open>\s+\<close> gives characters back: the group is the last
  character of \<open>w\<close>, other than the first, that is no line terminator.\<close>

definition fileLine :: "string \<Rightarrow> string option" where
  "fileLine l =
     (if startsWith l ''file:'' then
        (let w = takeWhile isSpace (drop 5 l); rest = dropWhile isSpace (drop 5 l) in
         if w = [] then None
         else if rest \<noteq> [] then Some (takeWhile (\<lambda>c. \<not> isLineTerminator c) rest)
         else (case filter (\<lambda>j. \<not> isLineTerminator (w ! j)) [1..<length w] of
                 [] \<Rightarrow> None
               | j # js \<Rightarrow> Some [w ! last (j # js)]))
      else None)"

text \<open>\<open>f.replace(/:.*$/, "")\<close>: cut at the leftmost colon behind which no line terminator
  follows up to the end of the string.\<close>

fun stripRange :: "string \<Rightarrow> string" where
  "stripRange [] = []"
| "stripRange (c # cs) =
     (if c = CHR '':'' \<and> filter isLineTerminator cs = [] then [] else c # stripRange cs)"

section \<open>Requests, process results and responses\<close>

text \<open>
  The parameter object of the tool (lines 106 to 126). Every field is optional. A string
  or a flag is used by the source through its truthiness: an absent value, the empty
  string and \<open>false\<close> all count as not given. Numbers are tested with \<open>!= null\<close> or
  compared with 0.
\<close>

record params =
  p_query :: "string option"
  p_pattern :: "string option"
  p_path :: "string option"
  p_glob :: "string option"
  p_type :: "string option"
  p_i :: "bool option"
  p_content :: "bool option"
  p_limit :: "int option"
  p_offset :: "int option"
  p_pre :: "int option"
  p_post :: "int option"
  p_context_lines :: "int option"
  p_multiline :: "bool option"
  p_code_only :: "bool option"
  p_exclude :: "string option"
  p_exclude_dir :: "string option"
  p_files_only :: "bool option"
  p_fixed_strings :: "bool option"
  p_word_regexp :: "bool option"

definition truthyS :: "string option \<Rightarrow> bool" where
  "truthyS v = (case v of None \<Rightarrow> False | Some s \<Rightarrow> s \<noteq> [])"

definition truthyB :: "bool option \<Rightarrow> bool" where
  "truthyB v = (case v of None \<Rightarrow> False | Some b \<Rightarrow> b)"

text \<open>The text of an optional string where the source passes it on as it is.\<close>

definition strOf :: "string option \<Rightarrow> string" where
  "strOf v = (case v of None \<Rightarrow> [] | Some s \<Rightarrow> s)"

record ctx =
  cwd :: string

text \<open>One call \<open>pi.exec(cmd, args, {signal, timeout})\<close> and what it resolves to.\<close>

record call =
  c_cmd :: string
  c_args :: "string list"
  c_timeout :: nat

record exec_result =
  r_code :: int
  r_stdout :: string
  r_stderr :: string
  r_killed :: bool

text \<open>The host's process runner. Within one request no two calls have the same command
  and arguments, so a function of the call stands for any sequence of outcomes.\<close>

type_synonym exec = "call \<Rightarrow> exec_result"

datatype engine = Rg | Colgrep

text \<open>\<open>GrepDetails\<close> (lines 13 to 24); \<open>resultCount\<close> is the only required field.\<close>

record details =
  d_resultCount :: nat
  d_query :: "string option"
  d_pattern :: "string option"
  d_searchPath :: "string option"
  d_files :: "string list option"
  d_engine :: "engine option"
  d_fallback :: "bool option"
  d_filesSearched :: "int option"
  d_filesMatched :: "int option"
  d_searchComplete :: "bool option"

text \<open>A tool response: the text of its single content item, the error flag and the
  details object, which error responses do not have.\<close>

record response =
  content_text :: string
  isError :: bool
  details :: "details option"

section \<open>The ripgrep engine\<close>

definition CODE_ONLY_EXCLUDES :: "string list" where
  "CODE_ONLY_EXCLUDES =
     [''*.md'', ''*.markdown'', ''*.txt'', ''*.text'', ''*.rst'', ''*.adoc'', ''*.asciidoc'', ''*.org'',
      ''*.yml'', ''*.yaml'', ''*.toml'', ''*.json'',
      ''*.sh'', ''*.bash'', ''*.zsh'', ''*.ps1'',
      ''Dockerfile'', ''Makefile'', ''GNUmakefile'', ''makefile'']"

text \<open>\<open>params.path || ctx.cwd\<close> (lines 98 to 100).\<close>

definition searchPath :: "params \<Rightarrow> ctx \<Rightarrow> string" where
  "searchPath ps cx = (if truthyS (p_path ps) then strOf (p_path ps) else cwd cx)"

text \<open>\<open>(params.limit && params.limit > 0) ? params.limit : 100\<close>.\<close>

definition effectiveLimit :: "params \<Rightarrow> int" where
  "effectiveLimit ps = (case p_limit ps of None \<Rightarrow> 100 | Some n \<Rightarrow> if n > 0 then n else 100)"

text \<open>Lines 269 and 270. \<open>"\\n"\<close> is a backslash followed by the letter n, \<open>"\n"\<close> a line
  feed; \<open>??\<close> takes its right operand only when the left one is absent.\<close>

definition patternHasNewline :: "params \<Rightarrow> bool" where
  "patternHasNewline ps =
     (case p_pattern ps of
        None \<Rightarrow> False
      | Some p \<Rightarrow> includes_str p [CHR 0x5C, CHR ''n''] \<or> includes_str p [NL])"

definition effectiveMultiline :: "params \<Rightarrow> bool" where
  "effectiveMultiline ps = (case p_multiline ps of Some b \<Rightarrow> b | None \<Rightarrow> patternHasNewline ps)"

text \<open>The argument list of lines 250 to 303, in three parts: what is pushed before the
  multiline flag, the flag, and what is pushed after it.\<close>

definition rgArgsHead :: "params \<Rightarrow> string list" where
  "rgArgsHead ps =
     [''--color=never'', ''--line-number'', ''--heading'', ''--hidden'', ''--stats'']
     @ [''--max-count'', showInt (effectiveLimit ps)]
     @ (if truthyB (p_i ps) then [''-i''] else [])
     @ (if truthyB (p_fixed_strings ps) then [''-F''] else [])
     @ (if truthyB (p_word_regexp ps) then [''-w''] else [])
     @ (if truthyB (p_files_only ps) then [''-l''] else [])
     @ (if truthyS (p_type ps) then [''-t'', strOf (p_type ps)] else [])"

definition rgArgsMultiline :: "params \<Rightarrow> string list" where
  "rgArgsMultiline ps = (if effectiveMultiline ps then [''--multiline''] else [])"

definition rgArgsTail :: "params \<Rightarrow> ctx \<Rightarrow> string list" where
  "rgArgsTail ps cx =
     (case p_pre ps of None \<Rightarrow> [] | Some n \<Rightarrow> [''-B'', showInt n])
     @ (case p_post ps of None \<Rightarrow> [] | Some n \<Rightarrow> [''-A'', showInt n])
     @ (if truthyS (p_glob ps)
        then concat (map (\<lambda>g. [''-g'', g]) (splitGlobs (strOf (p_glob ps)))) else [])
     @ (if truthyS (p_exclude ps)
        then concat (map (\<lambda>e. [''-g'', ''!'' @ e]) (splitGlobs (strOf (p_exclude ps)))) else [])
     @ (if truthyS (p_exclude_dir ps)
        then concat (map (\<lambda>dir. if trim dir \<noteq> [] then [''-g'', ''!'' @ trim dir @ ''/**''] else [])
                      (split_str (CHR '','') (strOf (p_exclude_dir ps))))
        else [])
     @ (if truthyB (p_code_only ps)
        then concat (map (\<lambda>ext. [''-g'', ''!'' @ ext]) CODE_ONLY_EXCLUDES) else [])
     @ [''--'', strOf (p_pattern ps), searchPath ps cx]"

definition rgArgs :: "params \<Rightarrow> ctx \<Rightarrow> string list" where
  "rgArgs ps cx = rgArgsHead ps @ rgArgsMultiline ps @ rgArgsTail ps cx"

text \<open>The options of the invocation: the arguments in front of the end-of-flags marker,
  the pattern and the search path, which lines 301 to 303 push last.\<close>

definition rgOptions :: "params \<Rightarrow> ctx \<Rightarrow> string list" where
  "rgOptions ps cx = take (length (rgArgs ps cx) - 3) (rgArgs ps cx)"

text \<open>Lines 305 to 314: the run and the PCRE2 retry. The result is the final process
  result together with the calls made, in order.\<close>

definition pcreHint :: "string \<Rightarrow> bool" where
  "pcreHint stderr =
     (includes_str (toLowerCase stderr) ''look-around'' \<or>
      includes_str (toLowerCase stderr) ''backreference'' \<or>
      includes_str (toLowerCase stderr) ''pcre2'')"

definition rgRun :: "exec \<Rightarrow> params \<Rightarrow> ctx \<Rightarrow> exec_result \<times> call list" where
  "rgRun ex ps cx =
     (let c1 = \<lparr>c_cmd = ''rg'', c_args = rgArgs ps cx, c_timeout = 30000\<rparr>;
          result = ex c1
      in if r_code result = 2 \<and> \<not> truthyB (p_fixed_strings ps) \<and> pcreHint (r_stderr result)
         then (let c2 = \<lparr>c_cmd = ''rg'', c_args = ''-P'' # rgArgs ps cx, c_timeout = 30000\<rparr>
               in (ex c2, [c1, c2]))
         else (result, [c1]))"

text \<open>\<open>parseAndStripRgStats\<close> (lines 218 to 228).\<close>

record rg_stats =
  clean :: string
  filesSearched :: int
  filesMatched :: int

definition parseAndStripRgStats :: "string \<Rightarrow> rg_stats" where
  "parseAndStripRgStats stdout =
     \<lparr>clean = trim (stripStatsBlock stdout),
      filesSearched = (case filesSearchedRe stdout of Some ds \<Rightarrow> parseInt ds | None \<Rightarrow> - 1),
      filesMatched = (case filesMatchedRe stdout of Some ds \<Rightarrow> parseInt ds | None \<Rightarrow> - 1)\<rparr>"

text \<open>The response of lines 337 to 345 and again of lines 367 to 375.\<close>

definition rgNoMatches :: "params \<Rightarrow> rg_stats \<Rightarrow> response" where
  "rgNoMatches ps stats =
     \<lparr>content_text = ''[s:'' @ showInt (filesSearched stats) @ '' m:0 complete]'' @ [NL] @ ''No matches found'',
      isError = False,
      details = Some \<lparr>d_resultCount = 0, d_query = None, d_pattern = p_pattern ps,
        d_searchPath = None, d_files = None, d_engine = Some Rg, d_fallback = None,
        d_filesSearched = Some (filesSearched stats), d_filesMatched = Some 0,
        d_searchComplete = Some True\<rparr>\<rparr>"

text \<open>The offset pass (lines 350 to 364): the loop over the lines with its three variables
  \<open>skipped\<close>, \<open>kept\<close> and \<open>currentFile\<close>; the result is \<open>kept\<close>.\<close>

fun offsetLoop :: "nat \<Rightarrow> string list \<Rightarrow> nat \<Rightarrow> string list \<Rightarrow> string \<Rightarrow> string list" where
  "offsetLoop offset [] skipped kept currentFile = kept"
| "offsetLoop offset (line # ls) skipped kept currentFile =
     (if headingLine line then offsetLoop offset ls skipped kept line
      else if matchLine line then
        (if skipped < offset then offsetLoop offset ls (skipped + 1) kept currentFile
         else if currentFile \<noteq> [] then offsetLoop offset ls skipped (kept @ [currentFile, line]) []
         else offsetLoop offset ls skipped (kept @ [line]) currentFile)
      else offsetLoop offset ls skipped (kept @ [line]) currentFile)"

definition effectiveOffset :: "params \<Rightarrow> nat" where
  "effectiveOffset ps = (case p_offset ps of None \<Rightarrow> 0 | Some n \<Rightarrow> if n > 0 then nat n else 0)"

definition applyOffset :: "nat \<Rightarrow> string \<Rightarrow> string" where
  "applyOffset offset stdout =
     trim (join_str [NL] (offsetLoop offset (split_str NL stdout) 0 [] []))"

text \<open>The file list of lines 379 to 385.\<close>

fun collectFiles :: "string list \<Rightarrow> string list \<Rightarrow> string list" where
  "collectFiles files [] = files"
| "collectFiles files (line # ls) =
     (if headingLine line \<and> line \<notin> set files then collectFiles (files @ [line]) ls
      else collectFiles files ls)"

text \<open>Lines 379 to 398, for the body text \<open>stdout\<close> that is left.\<close>

definition rgFinish :: "params \<Rightarrow> ctx \<Rightarrow> rg_stats \<Rightarrow> string \<Rightarrow> response" where
  "rgFinish ps cx stats stdout =
     (let outputLines = split_str NL stdout;
          files = collectFiles [] outputLines;
          matchCount = length (filter matchLine outputLines)
      in \<lparr>content_text = ''[s:'' @ showInt (filesSearched stats) @ '' m:'' @ showInt (filesMatched stats)
                  @ '' complete]'' @ [NL] @ stdout,
          isError = False,
          details = Some \<lparr>d_resultCount = (if matchCount \<noteq> 0 then matchCount else length files),
            d_query = None, d_pattern = p_pattern ps, d_searchPath = Some (searchPath ps cx),
            d_files = Some files, d_engine = Some Rg, d_fallback = None,
            d_filesSearched = Some (filesSearched stats), d_filesMatched = Some (filesMatched stats),
            d_searchComplete = Some True\<rparr>\<rparr>)"

text \<open>Lines 316 to 398: from the final process result to the response.\<close>

definition rgRespond :: "params \<Rightarrow> ctx \<Rightarrow> exec_result \<Rightarrow> response" where
  "rgRespond ps cx result =
     (if r_killed result then
        \<lparr>content_text = ''Error: ripgrep timed out or was aborted.'', isError = True, details = None\<rparr>
      else if r_code result = 2 then
        \<lparr>content_text = ''Error: '' @ (if trim (r_stderr result) \<noteq> [] then trim (r_stderr result)
                               else ''ripgrep error''),
         isError = True, details = None\<rparr>
      else
        (let stats = parseAndStripRgStats (trim (r_stdout result)) in
         if clean stats = [] \<or> r_code result = 1 then rgNoMatches ps stats
         else if effectiveOffset ps > 0 then
           (if applyOffset (effectiveOffset ps) (clean stats) = [] then rgNoMatches ps stats
            else rgFinish ps cx stats (applyOffset (effectiveOffset ps) (clean stats)))
         else rgFinish ps cx stats (clean stats)))"

definition execRipgrep :: "exec \<Rightarrow> params \<Rightarrow> ctx \<Rightarrow> response \<times> call list" where
  "execRipgrep ex ps cx = (rgRespond ps cx (fst (rgRun ex ps cx)), snd (rgRun ex ps cx))"


section \<open>The colgrep engine\<close>

text \<open>The argument list of lines 404 to 442.\<close>

definition colgrepArgs :: "params \<Rightarrow> ctx \<Rightarrow> string list" where
  "colgrepArgs ps cx =
     [''-y'']
     @ (if truthyB (p_content ps) then [''-c''] else [])
     @ [''-k'', showInt (effectiveLimit ps)]
     @ (if truthyS (p_glob ps)
        then concat (map (\<lambda>g. [''--include'', g]) (splitGlobs (strOf (p_glob ps)))) else [])
     @ (if truthyB (p_code_only ps) then [''--code-only''] else [])
     @ (if truthyB (p_files_only ps) then [''-l''] else [])
     @ (if truthyB (p_fixed_strings ps) then [''-F''] else [])
     @ (if truthyB (p_word_regexp ps) then [''-w''] else [])
     @ (case p_context_lines ps of
          Some n \<Rightarrow> [''-n'', showInt n]
        | None \<Rightarrow>
            (if p_pre ps \<noteq> None \<or> p_post ps \<noteq> None
             then [''-n'', showInt ((case p_pre ps of None \<Rightarrow> 0 | Some a \<Rightarrow> a)
                                    + (case p_post ps of None \<Rightarrow> 0 | Some b \<Rightarrow> b) + 1)]
             else []))
     @ (if truthyS (p_exclude ps)
        then concat (map (\<lambda>e. [''--exclude'', e]) (splitGlobs (strOf (p_exclude ps)))) else [])
     @ (if truthyS (p_exclude_dir ps)
        then concat (map (\<lambda>dir. if trim dir \<noteq> [] then [''--exclude-dir'', trim dir] else [])
                      (split_str (CHR '','') (strOf (p_exclude_dir ps))))
        else [])
     @ (if truthyS (p_pattern ps) then [''-e'', strOf (p_pattern ps)] else [])
     @ [''--'']
     @ (if truthyS (p_query ps) then [strOf (p_query ps)] else [])
     @ [searchPath ps cx]"

text \<open>The loop of lines 479 to 486 over the output lines.\<close>

fun colgrepFiles :: "bool \<Rightarrow> string list \<Rightarrow> string list" where
  "colgrepFiles files_only [] = []"
| "colgrepFiles files_only (line # ls) =
     (if trim line = [] then colgrepFiles files_only ls
      else (case rangeLine line of
              Some (f, r) \<Rightarrow> (f @ '':'' @ r) # colgrepFiles files_only ls
            | None \<Rightarrow>
                (case fileLine line of
                   Some f \<Rightarrow> f # colgrepFiles files_only ls
                 | None \<Rightarrow>
                     (if files_only \<and> \<not> startsWith line '' ''
                      then trim line # colgrepFiles files_only ls
                      else colgrepFiles files_only ls))))"

text \<open>\<open>${filesSearched > 0 ? filesSearched : "?"}\<close>.\<close>

definition indexedTag :: "int \<Rightarrow> string" where
  "indexedTag n = (if n > 0 then showInt n else ''?'')"

text \<open>Lines 446 to 502: from the process result to the response.\<close>

definition colgrepRespond :: "params \<Rightarrow> ctx \<Rightarrow> exec_result \<Rightarrow> response" where
  "colgrepRespond ps cx result =
     (if r_killed result then
        \<lparr>content_text = ''Error: colgrep timed out or was aborted. First-time indexing can take 30-90s.'',
         isError = True, details = None\<rparr>
      else if r_code result \<noteq> 0 then
        \<lparr>content_text = ''Error: '' @ (if trim (r_stderr result) \<noteq> [] then trim (r_stderr result)
                                       else ''colgrep failed''),
         isError = True, details = None\<rparr>
      else
        (let stdout = trim (stripAnsi (r_stdout result));
             filesSearched = (case filesIndexedRe (r_stderr result) of
                                Some ds \<Rightarrow> parseInt ds | None \<Rightarrow> - 1)
         in if stdout = [] \<or> startsWith stdout ''No results found'' then
              \<lparr>content_text = ''[ix:'' @ indexedTag filesSearched @ '' m:0 complete]'' @ [NL]
                               @ ''No matches found'',
               isError = False,
               details = Some \<lparr>d_resultCount = 0, d_query = p_query ps, d_pattern = p_pattern ps,
                 d_searchPath = None, d_files = None, d_engine = Some Colgrep, d_fallback = None,
                 d_filesSearched = Some filesSearched, d_filesMatched = Some 0,
                 d_searchComplete = Some True\<rparr>\<rparr>
            else
              (let outputLines = split_str NL stdout;
                   files = colgrepFiles (truthyB (p_files_only ps)) outputLines;
                   uniqueFiles = remdups (map stripRange files)
               in \<lparr>content_text = ''[ix:'' @ indexedTag filesSearched @ '' m:''
                                    @ showNat (length uniqueFiles) @ '' complete]'' @ [NL] @ stdout,
                   isError = False,
                   details = Some \<lparr>
                     d_resultCount = (if length files \<noteq> 0 then length files
                                      else length (filter (\<lambda>l. trim l \<noteq> []) outputLines)),
                     d_query = p_query ps, d_pattern = p_pattern ps,
                     d_searchPath = Some (searchPath ps cx), d_files = Some files,
                     d_engine = Some Colgrep, d_fallback = None,
                     d_filesSearched = Some filesSearched,
                     d_filesMatched = Some (int (length uniqueFiles)),
                     d_searchComplete = Some True\<rparr>\<rparr>)))"

definition execColgrep :: "exec \<Rightarrow> params \<Rightarrow> ctx \<Rightarrow> response \<times> call list" where
  "execColgrep ex ps cx =
     (let c = \<lparr>c_cmd = ''colgrep'', c_args = colgrepArgs ps cx, c_timeout = 120000\<rparr>
      in (colgrepRespond ps cx (ex c), [c]))"

section \<open>Fallback and routing\<close>

text \<open>\<open>isColgrepRecoverable\<close> (lines 207 to 215).\<close>

definition isColgrepRecoverable :: "response \<Rightarrow> bool" where
  "isColgrepRecoverable result =
     (let t = toLowerCase (content_text result) in
      includes_str t ''rely on grep'' \<or>
      includes_str t ''index is currently being built'' \<or>
      includes_str t ''no index found'' \<or>
      includes_str t ''no files indexed'' \<or>
      includes_str t ''enoent'' \<or>
      includes_str t ''not found'')"

text \<open>The parameter object that lines 232 to 241 build for the lexical run.\<close>

definition fallbackParams :: "params \<Rightarrow> params" where
  "fallbackParams ps =
     (if truthyS (p_pattern ps) then ps\<lparr>p_query := None\<rparr>
      else ps\<lparr>p_pattern := p_query ps, p_fixed_strings := Some True, p_query := None\<rparr>)"

text \<open>\<open>if (result.details) result.details.fallback = true\<close>.\<close>

definition markFallback :: "response \<Rightarrow> response" where
  "markFallback r =
     (case details r of
        None \<Rightarrow> r
      | Some d \<Rightarrow> r\<lparr>details := Some (d\<lparr>d_fallback := Some True\<rparr>)\<rparr>)"

definition execRipgrepFallback :: "exec \<Rightarrow> params \<Rightarrow> ctx \<Rightarrow> response \<times> call list" where
  "execRipgrepFallback ex ps cx =
     (markFallback (fst (execRipgrep ex (fallbackParams ps) cx)),
      snd (execRipgrep ex (fallbackParams ps) cx))"

text \<open>\<open>execute\<close> (lines 128 to 145), with the calls it makes.\<close>

definition execute :: "exec \<Rightarrow> params \<Rightarrow> ctx \<Rightarrow> response \<times> call list" where
  "execute ex ps cx =
     (if \<not> truthyS (p_query ps) \<and> \<not> truthyS (p_pattern ps) then
        (\<lparr>content_text = ''Error: at least one of `query` or `pattern` must be provided.'',
          isError = True, details = None\<rparr>, [])
      else if truthyS (p_query ps) then
        (let result = fst (execColgrep ex ps cx) in
         if isError result \<and> isColgrepRecoverable result
         then (fst (execRipgrepFallback ex ps cx),
               snd (execColgrep ex ps cx) @ snd (execRipgrepFallback ex ps cx))
         else execColgrep ex ps cx)
      else execRipgrep ex ps cx)"

section \<open>The contention gate\<close>
















section \<open>Concrete inputs\<close>

text \<open>The request with no parameter set, and a process runner that answers the semantic
  engine, the first lexical run and the lexical run with \<open>-P\<close> in front by three given
  results. The examples below are built from them.\<close>

definition noParams :: params where
  "noParams = \<lparr>p_query = None, p_pattern = None, p_path = None, p_glob = None, p_type = None,
     p_i = None, p_content = None, p_limit = None, p_offset = None, p_pre = None, p_post = None,
     p_context_lines = None, p_multiline = None, p_code_only = None, p_exclude = None,
     p_exclude_dir = None, p_files_only = None, p_fixed_strings = None, p_word_regexp = None\<rparr>"

definition scriptedExec :: "exec_result \<Rightarrow> exec_result \<Rightarrow> exec_result \<Rightarrow> exec" where
  "scriptedExec colgrepResult rgResult rgPcreResult c =
     (if c_cmd c = ''colgrep'' then colgrepResult
      else if take 1 (c_args c) = [''-P''] then rgPcreResult
      else rgResult)"

definition exited :: "int \<Rightarrow> string \<Rightarrow> string \<Rightarrow> exec_result" where
  "exited code out err = \<lparr>r_code = code, r_stdout = out, r_stderr = err, r_killed = False\<rparr>"

definition workdir :: ctx where
  "workdir = \<lparr>cwd = ''/w''\<rparr>"

text \<open>A request with only a query, and a host on which the semantic engine has no index
  and the lexical engine finds nothing (exit status 1).\<close>

definition queryOnly :: params where
  "queryOnly = noParams\<lparr>p_query := Some ''q''\<rparr>"

definition noIndexExec :: exec where
  "noIndexExec = scriptedExec (exited 1 [] ''No index found'') (exited 1 [] []) (exited 1 [] [])"

text \<open>Hosts on which the semantic engine has no index and the lexical engine fails with
  exit status 2; on which the semantic engine fails with another message; on which the
  lexical engine rejects a look-around pattern, also in its PCRE2 mode; and a request with
  only a pattern.\<close>

definition brokenExec :: exec where
  "brokenExec = scriptedExec (exited 1 [] ''No index found'') (exited 2 [] ''boom'') (exited 2 [] ''boom'')"

definition panicExec :: exec where
  "panicExec = scriptedExec (exited 1 [] ''panic'') (exited 1 [] []) (exited 1 [] [])"

definition lookaroundExec :: exec where
  "lookaroundExec = scriptedExec (exited 1 [] []) (exited 2 [] ''Look-around unsupported'') (exited 2 [] ''bad'')"

definition patternOnly :: params where
  "patternOnly = noParams\<lparr>p_pattern := Some ''x''\<rparr>"

text \<open>A request whose pattern holds a line feed and which switches multiline mode off; a
  host on which the semantic engine prints the same file heading twice; a host on which
  the lexical engine prints one file with one match and no statistics.\<close>

definition newlineNoMultiline :: params where
  "newlineNoMultiline = noParams\<lparr>p_pattern := Some (''a'' @ [NL] @ ''b''), p_multiline := Some False\<rparr>"




text \<open>A request whose pattern holds a line feed and which says nothing about multiline
  mode; a host on which the semantic engine prints a range line and the same file heading
  twice.\<close>

definition newlineAuto :: params where
  "newlineAuto = noParams\<lparr>p_pattern := Some (''a'' @ [NL] @ ''b'')\<rparr>"






section \<open>Verification\<close>

subsection \<open>Glob splitting\<close>









subsection \<open>Fallback\<close>

lemma startsWith_iff: "startsWith s p \<longleftrightarrow> (\<exists>v. s = p @ v)"
  unfolding startsWith_def
  by (metis append_eq_conv_conj append_take_drop_id)

lemma includes_str_iff: "includes_str s p \<longleftrightarrow> (\<exists>u v. s = u @ p @ v)"
proof (induction s)
  case Nil
  then show ?case by auto
next
  case (Cons c cs)
  show ?case
  proof
    assume "includes_str (c # cs) p"
    then consider "startsWith (c # cs) p" | "includes_str cs p" by auto
    then show "\<exists>u v. c # cs = u @ p @ v"
    proof cases
      case 1
      then obtain v where "c # cs = p @ v" by (auto simp: startsWith_iff)
      then have "c # cs = [] @ p @ v" by simp
      then show ?thesis by blast
    next
      case 2
      then obtain u v where "cs = u @ p @ v" using Cons.IH by blast
      then have "c # cs = (c # u) @ p @ v" by simp
      then show ?thesis by blast
    qed
  next
    assume "\<exists>u v. c # cs = u @ p @ v"
    then obtain u v where uv: "c # cs = u @ p @ v" by blast
    show "includes_str (c # cs) p"
    proof (cases u)
      case Nil
      then have "startsWith (c # cs) p" using uv by (auto simp: startsWith_iff)
      then show ?thesis by simp
    next
      case (Cons a u')
      then have "cs = u' @ p @ v" using uv by simp
      then have "includes_str cs p" using Cons.IH by blast
      then show ?thesis by simp
    qed
  qed
qed

lemma rgRespond_error_details:
  "isError (rgRespond ps cx res) \<longleftrightarrow> details (rgRespond ps cx res) = None"
  by (simp add: rgRespond_def rgNoMatches_def rgFinish_def Let_def)

lemma colgrepRespond_error_details:
  "isError (colgrepRespond ps cx res) \<longleftrightarrow> details (colgrepRespond ps cx res) = None"
  by (simp add: colgrepRespond_def Let_def)

lemma rgRespond_no_fallback:
  "details (rgRespond ps cx res) = Some d \<Longrightarrow> d_fallback d = None"
  by (auto simp add: rgRespond_def rgNoMatches_def rgFinish_def Let_def split: if_splits)

lemma colgrepRespond_no_fallback:
  "details (colgrepRespond ps cx res) = Some d \<Longrightarrow> d_fallback d = None"
  by (auto simp add: colgrepRespond_def Let_def split: if_splits)

lemma rgRespond_details_pattern:
  "details (rgRespond ps cx res) = Some d \<Longrightarrow>
     d_pattern d = p_pattern ps \<and> d_query d = None \<and> d_engine d = Some Rg"
  by (auto simp add: rgRespond_def rgNoMatches_def rgFinish_def Let_def split: if_splits)

lemma rgRespond_failed:
  "r_killed res \<or> r_code res = 2 \<Longrightarrow> isError (rgRespond ps cx res)"
  by (auto simp add: rgRespond_def)

lemma markFallback_isError: "isError (markFallback r) = isError r"
  by (simp add: markFallback_def split: option.splits)

lemma markFallback_text: "content_text (markFallback r) = content_text r"
  by (simp add: markFallback_def split: option.splits)

lemma markFallback_details:
  "details (markFallback r) = map_option (\<lambda>d. d\<lparr>d_fallback := Some True\<rparr>) (details r)"
  by (simp add: markFallback_def split: option.splits)

lemma fallback_error_details:
  "isError (fst (execRipgrepFallback ex ps cx)) \<longleftrightarrow> details (fst (execRipgrepFallback ex ps cx)) = None"
  by (simp add: execRipgrepFallback_def execRipgrep_def markFallback_isError markFallback_details
      rgRespond_error_details)

lemma execute_error_details:
  "isError (fst (execute ex ps cx)) \<longleftrightarrow> details (fst (execute ex ps cx)) = None"
  by (simp add: execute_def Let_def fallback_error_details execColgrep_def execRipgrep_def
      rgRespond_error_details colgrepRespond_error_details)

lemma fallbackParams_eq:
  "fallbackParams ps =
     ps\<lparr>p_query := None,
        p_pattern := (if truthyS (p_pattern ps) then p_pattern ps else p_query ps),
        p_fixed_strings := (if truthyS (p_pattern ps) then p_fixed_strings ps else Some True)\<rparr>"
  by (simp add: fallbackParams_def)

lemma execute_fallback_flag:
  assumes "details (fst (execute ex ps cx)) = Some d" "d_fallback d \<noteq> None"
  shows "truthyS (p_query ps) \<and> isError (fst (execColgrep ex ps cx))
         \<and> isColgrepRecoverable (fst (execColgrep ex ps cx)) \<and> d_fallback d = Some True"
proof -
  have a: "\<not> (\<not> truthyS (p_query ps) \<and> \<not> truthyS (p_pattern ps))"
    using assms(1) by (auto simp add: execute_def split: if_splits)
  show ?thesis
  proof (cases "truthyS (p_query ps)")
    case False
    then have "execute ex ps cx = execRipgrep ex ps cx" using a by (simp add: execute_def)
    then have "details (rgRespond ps cx (fst (rgRun ex ps cx))) = Some d"
      using assms(1) by (simp add: execRipgrep_def)
    then have "d_fallback d = None" by (rule rgRespond_no_fallback)
    with assms(2) show ?thesis by simp
  next
    case q: True
    show ?thesis
    proof (cases "isError (fst (execColgrep ex ps cx)) \<and> isColgrepRecoverable (fst (execColgrep ex ps cx))")
      case True
      then have "fst (execute ex ps cx) = fst (execRipgrepFallback ex ps cx)"
        using q by (simp add: execute_def Let_def)
      then have "d_fallback d = Some True"
        using assms(1)
        by (auto simp add: execRipgrepFallback_def markFallback_details)
      then show ?thesis using True q by simp
    next
      case False
      then have "execute ex ps cx = execColgrep ex ps cx" using q by (auto simp add: execute_def Let_def)
      then have "details (colgrepRespond ps cx (ex \<lparr>c_cmd = ''colgrep'', c_args = colgrepArgs ps cx, c_timeout = 120000\<rparr>)) = Some d"
        using assms(1) by (simp add: execColgrep_def Let_def)
      then have "d_fallback d = None" by (rule colgrepRespond_no_fallback)
      with assms(2) show ?thesis by simp
    qed
  qed
qed

lemma execute_fallback_path:
  assumes h: "truthyS (p_query ps) \<and> isError (fst (execColgrep ex ps cx))
      \<and> isColgrepRecoverable (fst (execColgrep ex ps cx))"
  shows "fst (execute ex ps cx) = markFallback (rgRespond (fallbackParams ps) cx (fst (rgRun ex (fallbackParams ps) cx)))"
    and "snd (execute ex ps cx) = snd (execColgrep ex ps cx) @ snd (rgRun ex (fallbackParams ps) cx)"
    and "details (fst (execute ex ps cx)) = Some d \<Longrightarrow>
            d_fallback d = Some True \<and> d_query d = None
            \<and> d_pattern d = (if truthyS (p_pattern ps) then p_pattern ps else p_query ps)"
proof -
  have e: "execute ex ps cx =
      (fst (execRipgrepFallback ex ps cx), snd (execColgrep ex ps cx) @ snd (execRipgrepFallback ex ps cx))"
    using h by (simp add: execute_def Let_def)
  show r: "fst (execute ex ps cx) = markFallback (rgRespond (fallbackParams ps) cx (fst (rgRun ex (fallbackParams ps) cx)))"
    by (simp add: e execRipgrepFallback_def execRipgrep_def)
  show "snd (execute ex ps cx) = snd (execColgrep ex ps cx) @ snd (rgRun ex (fallbackParams ps) cx)"
    by (simp add: e execRipgrepFallback_def execRipgrep_def)
  assume d: "details (fst (execute ex ps cx)) = Some d"
  then obtain d0 where d0: "details (rgRespond (fallbackParams ps) cx (fst (rgRun ex (fallbackParams ps) cx))) = Some d0"
    and dd: "d = d0\<lparr>d_fallback := Some True\<rparr>"
    by (auto simp add: r markFallback_details)
  have "d_pattern d0 = p_pattern (fallbackParams ps) \<and> d_query d0 = None"
    using rgRespond_details_pattern [OF d0] by simp
  then show "d_fallback d = Some True \<and> d_query d = None
            \<and> d_pattern d = (if truthyS (p_pattern ps) then p_pattern ps else p_query ps)"
    by (simp add: dd fallbackParams_def)
qed

lemma rgRun_first_call:
  "hd (snd (rgRun ex ps cx)) = \<lparr>c_cmd = ''rg'', c_args = rgArgs ps cx, c_timeout = 30000\<rparr>"
  by (simp add: rgRun_def Let_def)

text \<open>
  Claim C1. When the request has a query and the semantic run fails recoverably, the
  router answers with the lexical run on the fallback request: the query is removed, a
  non-empty pattern is kept as it is, and without one the query text becomes the pattern
  with fixed-string mode set. What the router makes is the semantic call followed by the
  lexical calls, the first of them \<open>rg\<close> with the arguments of the fallback request. If
  the response has details, their fallback flag is true, whichever branch was taken. No
  other path sets the flag: details of a response with the flag set come from this path,
  and the two engines themselves leave it absent.
\<close>

theorem C1_fallback:
  "(truthyS (p_query ps) \<and> isError (fst (execColgrep ex ps cx))
      \<and> isColgrepRecoverable (fst (execColgrep ex ps cx)) \<longrightarrow>
      fst (execute ex ps cx) = markFallback (rgRespond (fallbackParams ps) cx (fst (rgRun ex (fallbackParams ps) cx)))
      \<and> snd (execute ex ps cx) = snd (execColgrep ex ps cx) @ snd (rgRun ex (fallbackParams ps) cx)
      \<and> hd (snd (rgRun ex (fallbackParams ps) cx)) =
          \<lparr>c_cmd = ''rg'', c_args = rgArgs (fallbackParams ps) cx, c_timeout = 30000\<rparr>
      \<and> fallbackParams ps =
          ps\<lparr>p_query := None,
             p_pattern := (if truthyS (p_pattern ps) then p_pattern ps else p_query ps),
             p_fixed_strings := (if truthyS (p_pattern ps) then p_fixed_strings ps else Some True)\<rparr>
      \<and> (\<forall>d. details (fst (execute ex ps cx)) = Some d \<longrightarrow>
            d_fallback d = Some True \<and> d_query d = None
            \<and> d_pattern d = (if truthyS (p_pattern ps) then p_pattern ps else p_query ps)))
   \<and> (\<forall>d. details (fst (execute ex ps cx)) = Some d \<and> d_fallback d \<noteq> None \<longrightarrow>
         d_fallback d = Some True \<and> truthyS (p_query ps) \<and> isError (fst (execColgrep ex ps cx))
         \<and> isColgrepRecoverable (fst (execColgrep ex ps cx)))
   \<and> (\<forall>d. details (fst (execRipgrep ex ps cx)) = Some d \<longrightarrow> d_fallback d = None)
   \<and> (\<forall>d. details (fst (execColgrep ex ps cx)) = Some d \<longrightarrow> d_fallback d = None)"
  (is "(?H \<longrightarrow> ?A) \<and> ?B \<and> ?C \<and> ?D")
proof -
  have 1: "?H \<longrightarrow> ?A"
  proof
    assume h: ?H
    have a5: "\<forall>d. details (fst (execute ex ps cx)) = Some d \<longrightarrow>
            d_fallback d = Some True \<and> d_query d = None
            \<and> d_pattern d = (if truthyS (p_pattern ps) then p_pattern ps else p_query ps)"
      by (intro allI impI) (rule execute_fallback_path(3) [OF h])
    show ?A
      by (rule conjI [OF execute_fallback_path(1) [OF h] conjI [OF execute_fallback_path(2) [OF h]
            conjI [OF rgRun_first_call conjI [OF fallbackParams_eq a5]]]])
  qed
  have 2: ?B
    using execute_fallback_flag [of ex ps cx] by simp
  have 3: ?C
    using rgRespond_no_fallback [of ps cx "fst (rgRun ex ps cx)"] by (simp add: execRipgrep_def)
  have 4: ?D
    using colgrepRespond_no_fallback [of ps cx] by (simp add: execColgrep_def Let_def)
  show ?thesis by (rule conjI [OF 1 conjI [OF 2 conjI [OF 3 4]]])
qed

lemma noIndex_colgrep:
  "fst (execColgrep noIndexExec queryOnly workdir)
     = \<lparr>content_text = ''Error: No index found'', isError = True, details = None\<rparr>"
  by (simp add: execColgrep_def colgrepRespond_def noIndexExec_def scriptedExec_def exited_def
      trim_def trimStart_def trimEnd_def isSpace_def)

lemma noIndex_recoverable:
  "isColgrepRecoverable \<lparr>content_text = ''Error: No index found'', isError = True, details = None\<rparr>"
  by code_simp

lemma noIndex_rgRun:
  "fst (rgRun noIndexExec ps cx) = exited 1 [] []"
  by (simp add: rgRun_def noIndexExec_def scriptedExec_def exited_def rgArgs_def rgArgsHead_def Let_def)

lemma rgRespond_exit1:
  "details (rgRespond ps cx (exited 1 out err)) =
     Some \<lparr>d_resultCount = 0, d_query = None, d_pattern = p_pattern ps,
        d_searchPath = None, d_files = None, d_engine = Some Rg, d_fallback = None,
        d_filesSearched = Some (filesSearched (parseAndStripRgStats (trim out))), d_filesMatched = Some 0,
        d_searchComplete = Some True\<rparr>"
  by (simp add: rgRespond_def exited_def rgNoMatches_def Let_def)

theorem C1_fallback_witness:
  "truthyS (p_query queryOnly)
   \<and> isError (fst (execColgrep noIndexExec queryOnly workdir))
   \<and> isColgrepRecoverable (fst (execColgrep noIndexExec queryOnly workdir))
   \<and> p_pattern (fallbackParams queryOnly) = Some ''q''
   \<and> p_fixed_strings (fallbackParams queryOnly) = Some True
   \<and> p_query (fallbackParams queryOnly) = None
   \<and> map_option d_fallback (details (fst (execute noIndexExec queryOnly workdir))) = Some (Some True)
   \<and> map_option d_pattern (details (fst (execute noIndexExec queryOnly workdir))) = Some (Some ''q'')"
proof -
  have q: "truthyS (p_query queryOnly)"
    by (simp add: queryOnly_def noParams_def truthyS_def)
  have e: "isError (fst (execColgrep noIndexExec queryOnly workdir))"
    by (simp add: noIndex_colgrep)
  have r: "isColgrepRecoverable (fst (execColgrep noIndexExec queryOnly workdir))"
    by (simp only: noIndex_colgrep noIndex_recoverable)
  have f: "fallbackParams queryOnly = queryOnly\<lparr>p_query := None, p_pattern := Some ''q'', p_fixed_strings := Some True\<rparr>"
    by (simp add: fallbackParams_def queryOnly_def noParams_def truthyS_def)
  have x: "fst (execute noIndexExec queryOnly workdir) =
      markFallback (rgRespond (fallbackParams queryOnly) workdir
        (fst (rgRun noIndexExec (fallbackParams queryOnly) workdir)))"
    using C1_fallback [of queryOnly noIndexExec workdir] q e r by blast
  have d: "details (fst (execute noIndexExec queryOnly workdir)) =
     Some \<lparr>d_resultCount = 0, d_query = None, d_pattern = Some ''q'',
        d_searchPath = None, d_files = None, d_engine = Some Rg, d_fallback = Some True,
        d_filesSearched = Some (filesSearched (parseAndStripRgStats (trim []))), d_filesMatched = Some 0,
        d_searchComplete = Some True\<rparr>"
    by (simp add: x markFallback_details noIndex_rgRun rgRespond_exit1 f)
  show ?thesis
    using q e r by (simp add: d f)
qed

lemma noIndex_execute:
  "fst (execute noIndexExec queryOnly workdir) =
     markFallback (rgRespond (fallbackParams queryOnly) workdir (exited 1 [] []))"
proof -
  have "truthyS (p_query queryOnly)"
    by (simp add: queryOnly_def noParams_def truthyS_def)
  moreover have "isError (fst (execColgrep noIndexExec queryOnly workdir))"
    by (simp add: noIndex_colgrep)
  moreover have "isColgrepRecoverable (fst (execColgrep noIndexExec queryOnly workdir))"
    by (simp only: noIndex_colgrep noIndex_recoverable)
  ultimately have "truthyS (p_query queryOnly) \<and> isError (fst (execColgrep noIndexExec queryOnly workdir))
      \<and> isColgrepRecoverable (fst (execColgrep noIndexExec queryOnly workdir))"
    by simp
  then show ?thesis
    using execute_fallback_path(1) [of queryOnly noIndexExec workdir] by (simp add: noIndex_rgRun)
qed

lemma broken_colgrep:
  "fst (execColgrep brokenExec queryOnly workdir)
     = \<lparr>content_text = ''Error: No index found'', isError = True, details = None\<rparr>"
  by (simp add: execColgrep_def colgrepRespond_def brokenExec_def scriptedExec_def exited_def
      trim_def trimStart_def trimEnd_def isSpace_def)

lemma broken_rgRun:
  "fst (rgRun brokenExec (fallbackParams queryOnly) workdir) = exited 2 [] ''boom''"
  by (simp add: rgRun_def brokenExec_def scriptedExec_def exited_def rgArgs_def rgArgsHead_def Let_def
      fallbackParams_def queryOnly_def noParams_def truthyS_def truthyB_def)

text \<open>
  Claim C10. When the lexical run that the fallback issues fails, by being killed (timeout
  or abort) or with exit status 2 after the retry logic, the response is an error without
  a details object. An error response of the router never has details, so a response
  whose details carry the fallback flag is not an error.
\<close>

theorem C10_fallback_error_no_details:
  "((r_killed (fst (rgRun ex (fallbackParams ps) cx)) \<or> r_code (fst (rgRun ex (fallbackParams ps) cx)) = 2) \<longrightarrow>
      isError (fst (execRipgrepFallback ex ps cx)) \<and> details (fst (execRipgrepFallback ex ps cx)) = None)
   \<and> (isError (fst (execute ex ps cx)) \<longrightarrow> details (fst (execute ex ps cx)) = None)
   \<and> (\<forall>d. details (fst (execute ex ps cx)) = Some d \<and> d_fallback d = Some True \<longrightarrow>
          \<not> isError (fst (execute ex ps cx)))"
  (is "?A \<and> ?B \<and> ?C")
proof -
  have a: ?A
  proof
    assume "r_killed (fst (rgRun ex (fallbackParams ps) cx)) \<or> r_code (fst (rgRun ex (fallbackParams ps) cx)) = 2"
    then have "isError (rgRespond (fallbackParams ps) cx (fst (rgRun ex (fallbackParams ps) cx)))"
      by (rule rgRespond_failed)
    then have "isError (fst (execRipgrepFallback ex ps cx))"
      by (simp add: execRipgrepFallback_def execRipgrep_def markFallback_isError)
    then show "isError (fst (execRipgrepFallback ex ps cx)) \<and> details (fst (execRipgrepFallback ex ps cx)) = None"
      using fallback_error_details [of ex ps cx] by simp
  qed
  have b: ?B using execute_error_details [of ex ps cx] by simp
  have c: ?C using execute_error_details [of ex ps cx] by simp
  show ?thesis by (rule conjI [OF a conjI [OF b c]])
qed

theorem C10_fallback_error_no_details_witness:
  "r_code (fst (rgRun brokenExec (fallbackParams queryOnly) workdir)) = 2
   \<and> isError (fst (execRipgrepFallback brokenExec queryOnly workdir))
   \<and> details (fst (execRipgrepFallback brokenExec queryOnly workdir)) = None
   \<and> map_option d_fallback (details (fst (execute noIndexExec queryOnly workdir))) = Some (Some True)
   \<and> \<not> isError (fst (execute noIndexExec queryOnly workdir))"
proof -
  have h: "r_code (fst (rgRun brokenExec (fallbackParams queryOnly) workdir)) = 2"
    by (simp add: broken_rgRun exited_def)
  have d: "details (fst (execute noIndexExec queryOnly workdir)) =
     Some \<lparr>d_resultCount = 0, d_query = None, d_pattern = p_pattern (fallbackParams queryOnly),
        d_searchPath = None, d_files = None, d_engine = Some Rg, d_fallback = Some True,
        d_filesSearched = Some (filesSearched (parseAndStripRgStats (trim []))), d_filesMatched = Some 0,
        d_searchComplete = Some True\<rparr>"
    by (simp add: noIndex_execute markFallback_details rgRespond_exit1)
  show ?thesis
    using C10_fallback_error_no_details [of brokenExec queryOnly workdir]
      C10_fallback_error_no_details [of noIndexExec queryOnly workdir] h
    by (simp add: d)
qed

subsection \<open>Recoverable and fatal failures of the semantic engine\<close>

lemma recoverable_iff:
  "isColgrepRecoverable r \<longleftrightarrow>
     (\<exists>u v. toLowerCase (content_text r) = u @ ''rely on grep'' @ v)
     \<or> (\<exists>u v. toLowerCase (content_text r) = u @ ''index is currently being built'' @ v)
     \<or> (\<exists>u v. toLowerCase (content_text r) = u @ ''no index found'' @ v)
     \<or> (\<exists>u v. toLowerCase (content_text r) = u @ ''no files indexed'' @ v)
     \<or> (\<exists>u v. toLowerCase (content_text r) = u @ ''enoent'' @ v)
     \<or> (\<exists>u v. toLowerCase (content_text r) = u @ ''not found'' @ v)"
  unfolding isColgrepRecoverable_def Let_def includes_str_iff by (rule refl)

lemma timeout_text_fatal:
  "\<not> isColgrepRecoverable \<lparr>content_text = ''Error: colgrep timed out or was aborted. First-time indexing can take 30-90s.'',
         isError = True, details = None\<rparr>"
  by code_simp

lemma killed_not_recoverable:
  "r_killed res \<Longrightarrow> \<not> isColgrepRecoverable (colgrepRespond ps cx res)"
  by (simp add: colgrepRespond_def timeout_text_fatal)

text \<open>
  Claim C2. A failure of the semantic engine is recoverable exactly when its message, put
  in lower case, contains one of the phrases \<open>rely on grep\<close> (the engine advises the
  lexical search), \<open>index is currently being built\<close>, \<open>no index found\<close>,
  \<open>no files indexed\<close>, \<open>enoent\<close> or \<open>not found\<close> (the binary is missing). A failure
  that is not recoverable is returned as it is, after the one semantic call; a recoverable
  one is answered by the fallback. A run that was killed is never recoverable.
\<close>

theorem C2_recoverable:
  "(isColgrepRecoverable r \<longleftrightarrow>
     (\<exists>u v. toLowerCase (content_text r) = u @ ''rely on grep'' @ v)
     \<or> (\<exists>u v. toLowerCase (content_text r) = u @ ''index is currently being built'' @ v)
     \<or> (\<exists>u v. toLowerCase (content_text r) = u @ ''no index found'' @ v)
     \<or> (\<exists>u v. toLowerCase (content_text r) = u @ ''no files indexed'' @ v)
     \<or> (\<exists>u v. toLowerCase (content_text r) = u @ ''enoent'' @ v)
     \<or> (\<exists>u v. toLowerCase (content_text r) = u @ ''not found'' @ v))
   \<and> (truthyS (p_query ps) \<and> isError (fst (execColgrep ex ps cx))
        \<and> \<not> isColgrepRecoverable (fst (execColgrep ex ps cx)) \<longrightarrow>
        execute ex ps cx = execColgrep ex ps cx)
   \<and> (truthyS (p_query ps) \<and> isError (fst (execColgrep ex ps cx))
        \<and> isColgrepRecoverable (fst (execColgrep ex ps cx)) \<longrightarrow>
        fst (execute ex ps cx) = fst (execRipgrepFallback ex ps cx)
        \<and> snd (execute ex ps cx) = snd (execColgrep ex ps cx) @ snd (execRipgrepFallback ex ps cx))
   \<and> (r_killed res \<longrightarrow> \<not> isColgrepRecoverable (colgrepRespond ps cx res))"
  (is "?A \<and> ?B \<and> ?C \<and> ?D")
proof -
  have a: ?A by (rule recoverable_iff)
  have b: ?B by (simp add: execute_def Let_def)
  have c: ?C by (simp add: execute_def Let_def)
  have d: ?D using killed_not_recoverable by blast
  show ?thesis by (rule conjI [OF a conjI [OF b conjI [OF c d]]])
qed

lemma panic_colgrep:
  "execColgrep panicExec queryOnly workdir
     = (\<lparr>content_text = ''Error: panic'', isError = True, details = None\<rparr>,
        [\<lparr>c_cmd = ''colgrep'', c_args = colgrepArgs queryOnly workdir, c_timeout = 120000\<rparr>])"
  by (simp add: execColgrep_def colgrepRespond_def panicExec_def scriptedExec_def exited_def
      trim_def trimStart_def trimEnd_def isSpace_def)

lemma panic_fatal:
  "\<not> isColgrepRecoverable \<lparr>content_text = ''Error: panic'', isError = True, details = None\<rparr>"
  by code_simp

theorem C2_recoverable_witness:
  "truthyS (p_query queryOnly)
   \<and> isError (fst (execColgrep panicExec queryOnly workdir))
   \<and> \<not> isColgrepRecoverable (fst (execColgrep panicExec queryOnly workdir))
   \<and> execute panicExec queryOnly workdir =
       (\<lparr>content_text = ''Error: panic'', isError = True, details = None\<rparr>,
        [\<lparr>c_cmd = ''colgrep'', c_args = colgrepArgs queryOnly workdir, c_timeout = 120000\<rparr>])
   \<and> isError (fst (execColgrep noIndexExec queryOnly workdir))
   \<and> isColgrepRecoverable (fst (execColgrep noIndexExec queryOnly workdir))
   \<and> fst (execute noIndexExec queryOnly workdir) = fst (execRipgrepFallback noIndexExec queryOnly workdir)
   \<and> r_killed \<lparr>r_code = 0, r_stdout = [], r_stderr = [], r_killed = True\<rparr>
   \<and> \<not> isColgrepRecoverable
         (colgrepRespond queryOnly workdir \<lparr>r_code = 0, r_stdout = [], r_stderr = [], r_killed = True\<rparr>)"
proof -
  have q: "truthyS (p_query queryOnly)"
    by (simp add: queryOnly_def noParams_def truthyS_def)
  have e: "isError (fst (execColgrep panicExec queryOnly workdir))"
    by (simp add: panic_colgrep)
  have n: "\<not> isColgrepRecoverable (fst (execColgrep panicExec queryOnly workdir))"
    by (simp add: panic_colgrep panic_fatal)
  have e': "isError (fst (execColgrep noIndexExec queryOnly workdir))"
    by (simp add: noIndex_colgrep)
  have r': "isColgrepRecoverable (fst (execColgrep noIndexExec queryOnly workdir))"
    by (simp only: noIndex_colgrep noIndex_recoverable)
  have k: "r_killed \<lparr>r_code = 0, r_stdout = [], r_stderr = [], r_killed = True\<rparr>" by simp
  have 1: "execute panicExec queryOnly workdir = execColgrep panicExec queryOnly workdir"
    using C2_recoverable [of _ queryOnly panicExec workdir] q e n by blast
  have 2: "fst (execute noIndexExec queryOnly workdir) = fst (execRipgrepFallback noIndexExec queryOnly workdir)"
    using C2_recoverable [of _ queryOnly noIndexExec workdir] q e' r' by blast
  have 3: "\<not> isColgrepRecoverable
         (colgrepRespond queryOnly workdir \<lparr>r_code = 0, r_stdout = [], r_stderr = [], r_killed = True\<rparr>)"
    using C2_recoverable [of _ queryOnly _ workdir "\<lparr>r_code = 0, r_stdout = [], r_stderr = [], r_killed = True\<rparr>"] k
    by blast
  show ?thesis
    using q e n e' r' k 2 3 by (simp add: 1 panic_colgrep)
qed

subsection \<open>The PCRE2 retry\<close>

lemma pcreHint_iff:
  "pcreHint e \<longleftrightarrow>
     (\<exists>u v. toLowerCase e = u @ ''look-around'' @ v)
     \<or> (\<exists>u v. toLowerCase e = u @ ''backreference'' @ v)
     \<or> (\<exists>u v. toLowerCase e = u @ ''pcre2'' @ v)"
  unfolding pcreHint_def includes_str_iff by (rule refl)

lemma rgRespond_failed_text:
  "r_killed res \<or> r_code res = 2 \<Longrightarrow>
     rgRespond ps cx res =
       \<lparr>content_text = (if r_killed res then ''Error: ripgrep timed out or was aborted.''
                        else ''Error: '' @ (if trim (r_stderr res) \<noteq> [] then trim (r_stderr res)
                                             else ''ripgrep error'')),
        isError = True, details = None\<rparr>"
  by (auto simp add: rgRespond_def)

text \<open>
  Claim C3. When the first lexical run exits with status 2, fixed-string mode is not
  requested and the error text, in lower case, contains \<open>look-around\<close>,
  \<open>backreference\<close> or \<open>pcre2\<close>, the adapter makes exactly two calls: the first one
  and one retry with \<open>-P\<close> in front of the same arguments; the response is built from
  the retry, and if the retry exits with status 2 as well it is an error response and
  nothing more is run. In every other case there is the one call only.
\<close>

theorem C3_pcre_retry:
  "(r_code (ex \<lparr>c_cmd = ''rg'', c_args = rgArgs ps cx, c_timeout = 30000\<rparr>) = 2
      \<and> \<not> truthyB (p_fixed_strings ps)
      \<and> pcreHint (r_stderr (ex \<lparr>c_cmd = ''rg'', c_args = rgArgs ps cx, c_timeout = 30000\<rparr>)) \<longrightarrow>
      snd (execRipgrep ex ps cx) =
        [\<lparr>c_cmd = ''rg'', c_args = rgArgs ps cx, c_timeout = 30000\<rparr>,
         \<lparr>c_cmd = ''rg'', c_args = ''-P'' # rgArgs ps cx, c_timeout = 30000\<rparr>]
      \<and> fst (execRipgrep ex ps cx) =
          rgRespond ps cx (ex \<lparr>c_cmd = ''rg'', c_args = ''-P'' # rgArgs ps cx, c_timeout = 30000\<rparr>)
      \<and> (r_code (ex \<lparr>c_cmd = ''rg'', c_args = ''-P'' # rgArgs ps cx, c_timeout = 30000\<rparr>) = 2 \<longrightarrow>
           isError (fst (execRipgrep ex ps cx)) \<and> details (fst (execRipgrep ex ps cx)) = None))
   \<and> (\<not> (r_code (ex \<lparr>c_cmd = ''rg'', c_args = rgArgs ps cx, c_timeout = 30000\<rparr>) = 2
          \<and> \<not> truthyB (p_fixed_strings ps)
          \<and> pcreHint (r_stderr (ex \<lparr>c_cmd = ''rg'', c_args = rgArgs ps cx, c_timeout = 30000\<rparr>))) \<longrightarrow>
        snd (execRipgrep ex ps cx) = [\<lparr>c_cmd = ''rg'', c_args = rgArgs ps cx, c_timeout = 30000\<rparr>])
   \<and> (pcreHint e \<longleftrightarrow>
         (\<exists>u v. toLowerCase e = u @ ''look-around'' @ v)
         \<or> (\<exists>u v. toLowerCase e = u @ ''backreference'' @ v)
         \<or> (\<exists>u v. toLowerCase e = u @ ''pcre2'' @ v))"
  (is "(?H \<longrightarrow> ?A) \<and> ?B \<and> ?C")
proof -
  have a: "?H \<longrightarrow> ?A"
    by (auto simp add: execRipgrep_def rgRun_def Let_def rgRespond_failed rgRespond_failed_text)
  have b: ?B
    by (auto simp add: execRipgrep_def rgRun_def Let_def)
  have c: ?C by (rule pcreHint_iff)
  show ?thesis by (rule conjI [OF a conjI [OF b c]])
qed

lemma lookaround_first:
  "lookaroundExec \<lparr>c_cmd = ''rg'', c_args = rgArgs ps cx, c_timeout = 30000\<rparr>
     = exited 2 [] ''Look-around unsupported''"
  by (simp add: lookaroundExec_def scriptedExec_def rgArgs_def rgArgsHead_def)

lemma lookaround_second:
  "lookaroundExec \<lparr>c_cmd = ''rg'', c_args = ''-P'' # rgArgs ps cx, c_timeout = 30000\<rparr>
     = exited 2 [] ''bad''"
  by (simp add: lookaroundExec_def scriptedExec_def)

lemma lookaround_hint: "pcreHint ''Look-around unsupported''"
  by code_simp

theorem C3_pcre_retry_witness:
  "r_code (lookaroundExec \<lparr>c_cmd = ''rg'', c_args = rgArgs patternOnly workdir, c_timeout = 30000\<rparr>) = 2
   \<and> \<not> truthyB (p_fixed_strings patternOnly)
   \<and> pcreHint (r_stderr (lookaroundExec \<lparr>c_cmd = ''rg'', c_args = rgArgs patternOnly workdir, c_timeout = 30000\<rparr>))
   \<and> r_code (lookaroundExec \<lparr>c_cmd = ''rg'', c_args = ''-P'' # rgArgs patternOnly workdir, c_timeout = 30000\<rparr>) = 2
   \<and> length (snd (execRipgrep lookaroundExec patternOnly workdir)) = 2
   \<and> map c_args (snd (execRipgrep lookaroundExec patternOnly workdir))
        = [rgArgs patternOnly workdir, ''-P'' # rgArgs patternOnly workdir]
   \<and> isError (fst (execRipgrep lookaroundExec patternOnly workdir))
   \<and> details (fst (execRipgrep lookaroundExec patternOnly workdir)) = None
   \<and> snd (execRipgrep brokenExec patternOnly workdir)
        = [\<lparr>c_cmd = ''rg'', c_args = rgArgs patternOnly workdir, c_timeout = 30000\<rparr>]"
proof -
  have 1: "r_code (lookaroundExec \<lparr>c_cmd = ''rg'', c_args = rgArgs patternOnly workdir, c_timeout = 30000\<rparr>) = 2"
    by (simp add: lookaround_first exited_def)
  have 2: "\<not> truthyB (p_fixed_strings patternOnly)"
    by (simp add: patternOnly_def noParams_def truthyB_def)
  have 3: "pcreHint (r_stderr (lookaroundExec \<lparr>c_cmd = ''rg'', c_args = rgArgs patternOnly workdir, c_timeout = 30000\<rparr>))"
    by (simp add: lookaround_first exited_def lookaround_hint)
  have 4: "r_code (lookaroundExec \<lparr>c_cmd = ''rg'', c_args = ''-P'' # rgArgs patternOnly workdir, c_timeout = 30000\<rparr>) = 2"
    by (simp add: lookaround_second exited_def)
  have 5: "\<not> pcreHint ''boom''" by code_simp
  have 6: "brokenExec \<lparr>c_cmd = ''rg'', c_args = rgArgs patternOnly workdir, c_timeout = 30000\<rparr> = exited 2 [] ''boom''"
    by (simp add: brokenExec_def scriptedExec_def rgArgs_def rgArgsHead_def)
  have 7: "\<not> (r_code (brokenExec \<lparr>c_cmd = ''rg'', c_args = rgArgs patternOnly workdir, c_timeout = 30000\<rparr>) = 2
          \<and> \<not> truthyB (p_fixed_strings patternOnly)
          \<and> pcreHint (r_stderr (brokenExec \<lparr>c_cmd = ''rg'', c_args = rgArgs patternOnly workdir, c_timeout = 30000\<rparr>)))"
    by (simp add: 6 exited_def 5)
  have a: "snd (execRipgrep lookaroundExec patternOnly workdir) =
        [\<lparr>c_cmd = ''rg'', c_args = rgArgs patternOnly workdir, c_timeout = 30000\<rparr>,
         \<lparr>c_cmd = ''rg'', c_args = ''-P'' # rgArgs patternOnly workdir, c_timeout = 30000\<rparr>]"
    and b: "isError (fst (execRipgrep lookaroundExec patternOnly workdir))
          \<and> details (fst (execRipgrep lookaroundExec patternOnly workdir)) = None"
    using C3_pcre_retry [of lookaroundExec patternOnly workdir] 1 2 3 4 by blast+
  have c: "snd (execRipgrep brokenExec patternOnly workdir)
        = [\<lparr>c_cmd = ''rg'', c_args = rgArgs patternOnly workdir, c_timeout = 30000\<rparr>]"
    using C3_pcre_retry [of brokenExec patternOnly workdir] 7 by blast
  show ?thesis
    using 1 2 3 4 b c by (simp add: a)
qed

subsection \<open>Response text and file lists\<close>







lemma digitChar_isDigit: "d < 10 \<Longrightarrow> isDigit (digitChar d)"
  by (simp add: isDigit_def digitChar_def)

lemma showNat_digits: "c \<in> set (showNat n) \<Longrightarrow> isDigit c"
proof (induction n arbitrary: c rule: showNat.induct)
  case (1 n)
  show ?case
  proof (cases "n < 10")
    case True
    then show ?thesis using "1.prems" by (subst (asm) showNat.simps) (simp add: digitChar_isDigit)
  next
    case False
    then have "c \<in> set (showNat (n div 10)) \<or> c = digitChar (n mod 10)"
      using "1.prems" by (subst (asm) showNat.simps) auto
    then show ?thesis using "1.IH" False by (auto simp add: digitChar_isDigit)
  qed
qed


lemma showInt_nonneg: "0 \<le> n \<Longrightarrow> showInt n = showNat (nat n)"
  by (simp add: showInt_def)

lemma trimEnd_keeps_head:
  assumes "u \<noteq> []" "\<not> isSpace (hd u)"
  shows "trimEnd u \<noteq> [] \<and> hd (trimEnd u) = hd u"
proof -
  obtain x w where u: "u = x # w" using assms(1) by (cases u) auto
  have nx: "\<not> isSpace x" using assms(2) u by simp
  have "dropWhile isSpace (rev w @ [x]) = dropWhile isSpace (rev w) @ [x]"
    using nx by (simp add: dropWhile_append3)
  then show ?thesis by (simp add: trimEnd_def u)
qed

lemma trimEnd_last: "trimEnd u = [] \<or> \<not> isSpace (last (trimEnd u))"
proof -
  have "dropWhile isSpace (rev u) = [] \<or> \<not> isSpace (hd (dropWhile isSpace (rev u)))"
    using hd_dropWhile [of isSpace "rev u"] by blast
  then show ?thesis by (auto simp add: trimEnd_def last_rev)
qed

lemma trim_ends: "trim s = [] \<or> (\<not> isSpace (hd (trim s)) \<and> \<not> isSpace (last (trim s)))"
proof (cases "trimStart s = []")
  case True
  then show ?thesis by (simp add: trim_def trimEnd_def)
next
  case False
  then have "\<not> isSpace (hd (trimStart s))"
    unfolding trimStart_def using hd_dropWhile by blast
  then have "trimEnd (trimStart s) \<noteq> [] \<and> hd (trimEnd (trimStart s)) = hd (trimStart s)"
    using trimEnd_keeps_head False by blast
  then show ?thesis
    using trimEnd_last [of "trimStart s"] \<open>\<not> isSpace (hd (trimStart s))\<close> by (simp add: trim_def)
qed

lemma trim_fixed:
  assumes "t = [] \<or> (\<not> isSpace (hd t) \<and> \<not> isSpace (last t))"
  shows "trim t = t"
proof (cases "t = []")
  case True
  then show ?thesis by (simp add: trim_def trimStart_def trimEnd_def)
next
  case False
  then have h: "\<not> isSpace (hd t)" and l: "\<not> isSpace (last t)" using assms by auto
  have 1: "trimStart t = t" using False h by (cases t) (auto simp add: trimStart_def)
  have "rev t \<noteq> [] \<and> \<not> isSpace (hd (rev t))" using False l by (simp add: hd_rev)
  then have "dropWhile isSpace (rev t) = rev t" by (cases "rev t") auto
  then show ?thesis by (simp add: trim_def 1 trimEnd_def)
qed

lemma trim_idem: "trim (trim s) = trim s"
  using trim_fixed [OF trim_ends] .





lemma colgrepFiles_append:
  "colgrepFiles fo (ls @ ls') = colgrepFiles fo ls @ colgrepFiles fo ls'"
  by (induction ls) (auto split: option.splits)




lemma rgRespond_cases:
  assumes "\<not> isError (rgRespond ps cx res)"
  shows "\<exists>stats body.
     (rgRespond ps cx res = rgNoMatches ps stats \<and> body = ''No matches found'')
     \<or> (rgRespond ps cx res = rgFinish ps cx stats body \<and> body \<noteq> [] \<and> trim body = body)"
proof -
  let ?stats = "parseAndStripRgStats (trim (r_stdout res))"
  let ?off = "applyOffset (effectiveOffset ps) (clean ?stats)"
  have k: "\<not> r_killed res" "r_code res \<noteq> 2"
    using assms by (auto simp add: rgRespond_def split: if_splits)
  have c: "trim (clean ?stats) = clean ?stats"
    by (simp add: parseAndStripRgStats_def trim_idem)
  have o: "trim ?off = ?off"
    by (simp add: applyOffset_def trim_idem)
  show ?thesis
  proof (cases "clean ?stats = [] \<or> r_code res = 1")
    case True
    then have "rgRespond ps cx res = rgNoMatches ps ?stats"
      using k by (simp add: rgRespond_def Let_def)
    then show ?thesis by blast
  next
    case nz: False
    show ?thesis
    proof (cases "0 < effectiveOffset ps")
      case False
      then have "rgRespond ps cx res = rgFinish ps cx ?stats (clean ?stats)"
        using k nz by (simp add: rgRespond_def Let_def)
      then show ?thesis using nz c by blast
    next
      case True
      show ?thesis
      proof (cases "?off = []")
        case True
        then have "rgRespond ps cx res = rgNoMatches ps ?stats"
          using k nz \<open>0 < effectiveOffset ps\<close> by (simp add: rgRespond_def Let_def)
        then show ?thesis by blast
      next
        case False
        then have "rgRespond ps cx res = rgFinish ps cx ?stats ?off"
          using k nz \<open>0 < effectiveOffset ps\<close> by (simp add: rgRespond_def Let_def)
        then show ?thesis using False o by blast
      qed
    qed
  qed
qed

lemma colgrepRespond_cases:
  assumes "\<not> isError (colgrepRespond ps cx res)"
  shows "\<exists>n body.
     (colgrepRespond ps cx res =
        \<lparr>content_text = ''[ix:'' @ indexedTag n @ '' m:0 complete]'' @ [NL] @ ''No matches found'',
         isError = False,
         details = Some \<lparr>d_resultCount = 0, d_query = p_query ps, d_pattern = p_pattern ps,
           d_searchPath = None, d_files = None, d_engine = Some Colgrep, d_fallback = None,
           d_filesSearched = Some n, d_filesMatched = Some 0, d_searchComplete = Some True\<rparr>\<rparr>
      \<and> body = ''No matches found'')
     \<or> (content_text (colgrepRespond ps cx res) =
          ''[ix:'' @ indexedTag n @ '' m:''
            @ showNat (length (remdups (map stripRange (colgrepFiles (truthyB (p_files_only ps)) (split_str NL body)))))
            @ '' complete]'' @ [NL] @ body
        \<and> (\<exists>d. details (colgrepRespond ps cx res) = Some d
              \<and> d_files d = Some (colgrepFiles (truthyB (p_files_only ps)) (split_str NL body))
              \<and> d_filesSearched d = Some n
              \<and> d_filesMatched d =
                  Some (int (length (remdups (map stripRange (colgrepFiles (truthyB (p_files_only ps)) (split_str NL body)))))))
        \<and> body \<noteq> [] \<and> trim body = body)"
proof -
  let ?out = "trim (stripAnsi (r_stdout res))"
  let ?n = "case filesIndexedRe (r_stderr res) of Some ds \<Rightarrow> parseInt ds | None \<Rightarrow> - 1"
  have k: "\<not> r_killed res" "r_code res = 0"
    using assms by (auto simp add: colgrepRespond_def split: if_splits)
  show ?thesis
  proof (cases "?out = [] \<or> startsWith ?out ''No results found''")
    case True
    then show ?thesis
      using k by (intro exI [of _ ?n] exI [of _ "''No matches found''"] disjI1)
        (simp add: colgrepRespond_def Let_def)
  next
    case False
    then show ?thesis
      using k by (intro exI [of _ ?n] exI [of _ ?out] disjI2)
        (simp add: colgrepRespond_def Let_def trim_idem)
  qed
qed












subsection \<open>Multiline mode\<close>

lemma patternHasNewline_iff:
  "patternHasNewline ps \<longleftrightarrow>
     (\<exists>p. p_pattern ps = Some p \<and>
        ((\<exists>u v. p = u @ [CHR 0x5C, CHR ''n''] @ v) \<or> (\<exists>u v. p = u @ [NL] @ v)))"
  by (cases "p_pattern ps") (simp_all add: patternHasNewline_def includes_str_iff)

lemma showNat_no_hyphen: "CHR ''-'' \<notin> set (showNat n)"
  using showNat_digits [of "CHR ''-''" n] by (auto simp add: isDigit_def)

lemma showInt_ne_multiline: "showInt n \<noteq> ''--multiline''"
proof
  assume a: "showInt n = ''--multiline''"
  show False
  proof (cases "n < 0")
    case True
    then have "showNat (nat (- n)) = ''-multiline''" using a by (simp add: showInt_def)
    then have "CHR ''-'' \<in> set (showNat (nat (- n)))" by simp
    then show False using showNat_no_hyphen by blast
  next
    case False
    then have "showNat (nat n) = ''--multiline''" using a by (simp add: showInt_def)
    then have "CHR ''-'' \<in> set (showNat (nat n))" by simp
    then show False using showNat_no_hyphen by blast
  qed
qed

lemma rgArgsHead_multiline:
  "''--multiline'' \<in> set (rgArgsHead ps) \<Longrightarrow> p_type ps = Some ''--multiline''"
  using showInt_ne_multiline [of "effectiveLimit ps"]
  by (auto simp add: rgArgsHead_def truthyS_def strOf_def split: if_splits option.splits)

lemma rgArgsTail_split:
  "\<exists>T. rgArgsTail ps cx = T @ [''--'', strOf (p_pattern ps), searchPath ps cx]
       \<and> (''--multiline'' \<in> set T \<longrightarrow> ''--multiline'' \<in> set (splitGlobs (strOf (p_glob ps))))"
proof -
  define T where "T =
     (case p_pre ps of None \<Rightarrow> [] | Some n \<Rightarrow> [''-B'', showInt n])
     @ (case p_post ps of None \<Rightarrow> [] | Some n \<Rightarrow> [''-A'', showInt n])
     @ (if truthyS (p_glob ps)
        then concat (map (\<lambda>g. [''-g'', g]) (splitGlobs (strOf (p_glob ps)))) else [])
     @ (if truthyS (p_exclude ps)
        then concat (map (\<lambda>e. [''-g'', ''!'' @ e]) (splitGlobs (strOf (p_exclude ps)))) else [])
     @ (if truthyS (p_exclude_dir ps)
        then concat (map (\<lambda>dir. if trim dir \<noteq> [] then [''-g'', ''!'' @ trim dir @ ''/**''] else [])
                      (split_str (CHR '','') (strOf (p_exclude_dir ps))))
        else [])
     @ (if truthyB (p_code_only ps)
        then concat (map (\<lambda>ext. [''-g'', ''!'' @ ext]) CODE_ONLY_EXCLUDES) else [])"
  have 1: "rgArgsTail ps cx = T @ [''--'', strOf (p_pattern ps), searchPath ps cx]"
    by (simp add: rgArgsTail_def T_def)
  have 2: "''--multiline'' \<in> set T \<longrightarrow> ''--multiline'' \<in> set (splitGlobs (strOf (p_glob ps)))"
    using showInt_ne_multiline [symmetric]
    by (auto simp add: T_def split: if_splits option.splits)
  show ?thesis using 1 2 by blast
qed

lemma rgOptions_split:
  "\<exists>T. rgOptions ps cx = rgArgsHead ps @ rgArgsMultiline ps @ T
       \<and> rgArgs ps cx = rgOptions ps cx @ [''--'', strOf (p_pattern ps), searchPath ps cx]
       \<and> (''--multiline'' \<in> set T \<longrightarrow> ''--multiline'' \<in> set (splitGlobs (strOf (p_glob ps))))"
proof -
  obtain T where t: "rgArgsTail ps cx = T @ [''--'', strOf (p_pattern ps), searchPath ps cx]"
    "''--multiline'' \<in> set T \<longrightarrow> ''--multiline'' \<in> set (splitGlobs (strOf (p_glob ps)))"
    using rgArgsTail_split by blast
  have "rgOptions ps cx = rgArgsHead ps @ rgArgsMultiline ps @ T"
    by (simp add: rgOptions_def rgArgs_def t(1))
  moreover have "rgArgs ps cx = rgOptions ps cx @ [''--'', strOf (p_pattern ps), searchPath ps cx]"
    by (simp add: rgOptions_def rgArgs_def t(1))
  ultimately show ?thesis using t(2) by blast
qed

lemma effectiveMultiline_iff:
  "effectiveMultiline ps \<longleftrightarrow> p_multiline ps = Some True \<or> (p_multiline ps = None \<and> patternHasNewline ps)"
  by (cases "p_multiline ps") (auto simp add: effectiveMultiline_def)

lemma rgOptions_multiline:
  assumes "p_type ps \<noteq> Some ''--multiline''"
    and "''--multiline'' \<notin> set (splitGlobs (strOf (p_glob ps)))"
  shows "''--multiline'' \<in> set (rgOptions ps cx) \<longleftrightarrow> effectiveMultiline ps"
proof -
  obtain T where t: "rgOptions ps cx = rgArgsHead ps @ rgArgsMultiline ps @ T"
    "''--multiline'' \<in> set T \<longrightarrow> ''--multiline'' \<in> set (splitGlobs (strOf (p_glob ps)))"
    using rgOptions_split by blast
  have h: "''--multiline'' \<notin> set (rgArgsHead ps)" using rgArgsHead_multiline assms(1) by blast
  have tl: "''--multiline'' \<notin> set T" using t(2) assms(2) by blast
  show ?thesis using h tl by (simp add: t(1) rgArgsMultiline_def)
qed

text \<open>
  Claim C7 says that multiline mode is on exactly when the flag is set or the pattern
  holds a literal or escaped newline. For the pattern \<open>a\<close>, line feed, \<open>b\<close> with the flag
  given as \<open>false\<close> the pattern holds a newline and the options of the invocation have no
  \<open>--multiline\<close>: the flag, once given, decides alone.
\<close>

theorem C7_multiline_counterexample:
  "rgOptions newlineNoMultiline workdir =
     [''--color=never'', ''--line-number'', ''--heading'', ''--hidden'', ''--stats'',
      ''--max-count'', ''100'']
   \<and> \<not> ((''--multiline'' \<in> set (rgOptions newlineNoMultiline workdir))
          = (truthyB (p_multiline newlineNoMultiline) \<or> patternHasNewline newlineNoMultiline))"
proof -
  have a: "rgOptions newlineNoMultiline workdir =
     [''--color=never'', ''--line-number'', ''--heading'', ''--hidden'', ''--stats'',
      ''--max-count'', ''100'']"
    by code_simp
  have b: "patternHasNewline newlineNoMultiline" by code_simp
  show ?thesis unfolding a using b by simp
qed

text \<open>
  Claim C7, amended. The invocation is its options followed by the separator \<open>--\<close>, the
  pattern and the search path. Among the options \<open>--multiline\<close> occurs exactly when the
  flag is \<open>true\<close>, or the flag is absent and the pattern contains a backslash followed by
  \<open>n\<close> or a line feed; with the flag \<open>false\<close> it does not occur. This is said of the
  requests whose type filter and glob pieces are not themselves the text \<open>--multiline\<close>,
  which the source hands on as option values.
\<close>

theorem C7_multiline:
  "(p_type ps \<noteq> Some ''--multiline'' \<and> ''--multiline'' \<notin> set (splitGlobs (strOf (p_glob ps))) \<longrightarrow>
      ((''--multiline'' \<in> set (rgOptions ps cx))
         = (p_multiline ps = Some True \<or> (p_multiline ps = None \<and> patternHasNewline ps)))
      \<and> (p_multiline ps = Some False \<longrightarrow> ''--multiline'' \<notin> set (rgOptions ps cx)))
   \<and> rgArgs ps cx = rgOptions ps cx @ [''--'', strOf (p_pattern ps), searchPath ps cx]
   \<and> (patternHasNewline ps \<longleftrightarrow>
        (\<exists>p. p_pattern ps = Some p \<and>
           ((\<exists>u v. p = u @ [CHR 0x5C, CHR ''n''] @ v) \<or> (\<exists>u v. p = u @ [NL] @ v))))"
  (is "?A \<and> ?B \<and> ?C")
proof -
  have a: ?A
    using rgOptions_multiline [of ps cx] by (auto simp add: effectiveMultiline_iff)
  have b: ?B using rgOptions_split [of ps cx] by blast
  have c: ?C by (rule patternHasNewline_iff)
  show ?thesis by (rule conjI [OF a conjI [OF b c]])
qed

theorem C7_multiline_witness:
  "p_type newlineAuto \<noteq> Some ''--multiline''
   \<and> ''--multiline'' \<notin> set (splitGlobs (strOf (p_glob newlineAuto)))
   \<and> p_multiline newlineAuto = None \<and> patternHasNewline newlineAuto
   \<and> ''--multiline'' \<in> set (rgOptions newlineAuto workdir)
   \<and> p_type newlineNoMultiline \<noteq> Some ''--multiline''
   \<and> ''--multiline'' \<notin> set (splitGlobs (strOf (p_glob newlineNoMultiline)))
   \<and> p_multiline newlineNoMultiline = Some False
   \<and> ''--multiline'' \<notin> set (rgOptions newlineNoMultiline workdir)"
proof -
  have e: "splitGlobs [] = []" by code_simp
  have 1: "p_type newlineAuto \<noteq> Some ''--multiline''"
    "''--multiline'' \<notin> set (splitGlobs (strOf (p_glob newlineAuto)))"
    "p_multiline newlineAuto = None"
    by (simp_all add: newlineAuto_def noParams_def strOf_def e)
  have 2: "p_type newlineNoMultiline \<noteq> Some ''--multiline''"
    "''--multiline'' \<notin> set (splitGlobs (strOf (p_glob newlineNoMultiline)))"
    "p_multiline newlineNoMultiline = Some False"
    by (simp_all add: newlineNoMultiline_def noParams_def strOf_def e)
  have 3: "patternHasNewline newlineAuto" by code_simp
  have 4: "''--multiline'' \<in> set (rgOptions newlineAuto workdir)"
    using C7_multiline [of newlineAuto workdir] 1 3 by blast
  have 5: "''--multiline'' \<notin> set (rgOptions newlineNoMultiline workdir)"
    using C7_multiline [of newlineNoMultiline workdir] 2 by blast
  show ?thesis using 1 2 3 4 5 by simp
qed

subsection \<open>The file list of the details\<close>





























subsection \<open>The header line\<close>




subsection \<open>The contention gate\<close>












































end
